theory Spec2Isabelle
  imports Main "HOL-Library.Word"
begin

section \<open>Bytes, keys and the functions of external packages\<close>

text \<open>
  The SDK consists of \<^verbatim>\<open>src/utils/serialization.ts\<close> (argument classes, the schema
  table, \<^verbatim>\<open>serializeInstructionData\<close> and the five \<^verbatim>\<open>create...Instruction\<close>
  functions) and \<^verbatim>\<open>src/index.ts\<close> (class \<^verbatim>\<open>DataStoreProgram\<close>).  Everything it
  imports from \<^verbatim>\<open>@solana/web3.js\<close>, \<^verbatim>\<open>borsh\<close>, \<^verbatim>\<open>@noble/hashes\<close> and \<^verbatim>\<open>bn.js\<close>
  is outside the repository.  Of these, the hash and the address derivation are taken
  as parameters (record \<open>env\<close>); \<^verbatim>\<open>serialize\<close> of \<^verbatim>\<open>borsh\<close> and the constructor of
  \<^verbatim>\<open>bn.js\<close> are modelled by what they do with the arguments the SDK hands them.
  A JavaScript number that counts bytes (\<^verbatim>\<open>space\<close>, \<^verbatim>\<open>offset\<close>) is a natural number.
\<close>

type_synonym byte = "8 word"

text \<open>A \<^verbatim>\<open>PublicKey\<close> holds a 256-bit number; \<^verbatim>\<open>toBytes\<close> is its 32-byte big-endian form.\<close>

type_synonym PublicKey = "256 word"

datatype error =
    Error string
  | ReferenceError string
  | BorshError string

text \<open>\<open>le_bytes k n\<close>: the \<open>k\<close> low-order bytes of \<open>n\<close>, least significant first.\<close>

fun le_bytes :: "nat \<Rightarrow> nat \<Rightarrow> byte list" where
  "le_bytes 0 n = []"
| "le_bytes (Suc k) n = of_nat (n mod 256) # le_bytes k (n div 256)"

text \<open>Reading a little-endian byte sequence back as a number.\<close>

fun le_value :: "byte list \<Rightarrow> nat" where
  "le_value [] = 0"
| "le_value (b # bs) = unat b + 256 * le_value bs"

definition toBytes :: "PublicKey \<Rightarrow> byte list" where
  "toBytes k = rev (le_bytes 32 (unat k))"

definition toBuffer :: "PublicKey \<Rightarrow> byte list" where
  "toBuffer k = toBytes k"

text \<open>\<^verbatim>\<open>Buffer.from(s)\<close> for a string of one-byte characters.\<close>

definition Buffer_from :: "string \<Rightarrow> byte list" where
  "Buffer_from s = map (\<lambda>c. of_nat (of_char c)) s"

text \<open>
  \<^verbatim>\<open>new PublicKey(s)\<close> for a base58 string: the digits of \<open>s\<close> in the Bitcoin alphabet,
  most significant first.
\<close>

definition b58_alphabet :: string where
  "b58_alphabet = ''123456789ABCDEFGHJKLMNPQRSTUVWXYZabcdefghijkmnopqrstuvwxyz''"

fun b58_index :: "string \<Rightarrow> char \<Rightarrow> nat" where
  "b58_index [] c = 0"
| "b58_index (a # as) c = (if a = c then 0 else Suc (b58_index as c))"

definition b58_value :: "string \<Rightarrow> nat" where
  "b58_value s = foldl (\<lambda>acc c. acc * 58 + b58_index b58_alphabet c) 0 s"

definition PublicKey_of_base58 :: "string \<Rightarrow> PublicKey" where
  "PublicKey_of_base58 s = of_nat (b58_value s)"

text \<open>
  The external functions the SDK calls with a result: \<^verbatim>\<open>sha256\<close> of \<^verbatim>\<open>@noble/hashes\<close>
  and \<^verbatim>\<open>PublicKey.findProgramAddressSync\<close> of \<^verbatim>\<open>@solana/web3.js\<close>.
\<close>

record env =
  sha256 :: "byte list \<Rightarrow> byte list"
  findProgramAddressSync :: "byte list list \<Rightarrow> PublicKey \<Rightarrow> PublicKey \<times> nat"

section \<open>serialization.ts\<close>

subsection \<open>Objects and argument classes\<close>

datatype jsval =
    Undefined
  | Boolean bool
  | Number nat
  | BN nat
  | Bytes "byte list"

datatype ctor =
    InitializeDataStoreArgs
  | UpdateDataStoreArgs
  | UpdateDataStoreAuthorityArgs
  | FinalizeDataStoreArgs
  | CloseDataStoreArgs
  | OtherClass string

record obj =
  constructor :: ctor
  props :: "(string \<times> jsval) list"

text \<open>Property access: a property the object does not have reads as \<^verbatim>\<open>undefined\<close>.\<close>

definition get_prop :: "obj \<Rightarrow> string \<Rightarrow> jsval" where
  "get_prop ob name = (case map_of (props ob) name of None \<Rightarrow> Undefined | Some v \<Rightarrow> v)"

text \<open>
  An optional numeric property of an argument literal: \<open>None\<close> when the literal leaves
  the property out.
\<close>

definition number_or_undefined :: "nat option \<Rightarrow> jsval" where
  "number_or_undefined v = (case v of None \<Rightarrow> Undefined | Some n \<Rightarrow> Number n)"

definition new_InitializeDataStoreArgs ::
  "bool \<Rightarrow> nat \<Rightarrow> nat option \<Rightarrow> bool \<Rightarrow> nat \<Rightarrow> PublicKey \<Rightarrow> bool \<Rightarrow> obj" where
  "new_InitializeDataStoreArgs debug dataType bumpSeed isCreated space authority isDynamic =
     \<lparr>constructor = InitializeDataStoreArgs,
      props = [(''debug'', Boolean debug),
               (''dataType'', Number dataType),
               (''bumpSeed'', number_or_undefined bumpSeed),
               (''isCreated'', Boolean isCreated),
               (''space'', BN space),
               (''authority'', Bytes (toBytes authority)),
               (''isDynamic'', Boolean isDynamic)]\<rparr>"

definition new_UpdateDataStoreArgs ::
  "bool \<Rightarrow> byte list \<Rightarrow> byte list \<Rightarrow> nat \<Rightarrow> bool \<Rightarrow> nat \<Rightarrow> obj" where
  "new_UpdateDataStoreArgs debug dataHash buf offset reallocDown dataType =
     \<lparr>constructor = UpdateDataStoreArgs,
      props = [(''debug'', Boolean debug),
               (''dataHash'', Bytes dataHash),
               (''data'', Bytes buf),
               (''offset'', BN offset),
               (''reallocDown'', Boolean reallocDown),
               (''dataType'', Number dataType)]\<rparr>"

definition new_UpdateDataStoreAuthorityArgs :: "bool \<Rightarrow> obj" where
  "new_UpdateDataStoreAuthorityArgs debug =
     \<lparr>constructor = UpdateDataStoreAuthorityArgs, props = [(''debug'', Boolean debug)]\<rparr>"

definition new_FinalizeDataStoreArgs :: "bool \<Rightarrow> obj" where
  "new_FinalizeDataStoreArgs debug =
     \<lparr>constructor = FinalizeDataStoreArgs, props = [(''debug'', Boolean debug)]\<rparr>"

definition new_CloseDataStoreArgs :: "bool \<Rightarrow> obj" where
  "new_CloseDataStoreArgs debug =
     \<lparr>constructor = CloseDataStoreArgs, props = [(''debug'', Boolean debug)]\<rparr>"

subsection \<open>The schema table\<close>

text \<open>
  Field kinds of the table: \<^verbatim>\<open>'bool'\<close>, \<^verbatim>\<open>'u8'\<close>, \<^verbatim>\<open>'u64'\<close>, a fixed-size byte array
  \<^verbatim>\<open>[32]\<close> and a byte vector \<^verbatim>\<open>['u8']\<close>.
\<close>

datatype FieldType = T_bool | T_u8 | T_u64 | T_fixed nat | T_vec_u8

type_synonym Schema = "(string \<times> FieldType) list"

definition schemas :: "ctor \<Rightarrow> Schema option" where
  "schemas c =
     (case c of
        InitializeDataStoreArgs \<Rightarrow>
          Some [(''debug'', T_bool), (''dataType'', T_u8), (''bumpSeed'', T_u8),
                (''isCreated'', T_bool), (''space'', T_u64), (''authority'', T_fixed 32),
                (''isDynamic'', T_bool)]
      | UpdateDataStoreArgs \<Rightarrow>
          Some [(''debug'', T_bool), (''dataHash'', T_fixed 32), (''data'', T_vec_u8),
                (''offset'', T_u64), (''reallocDown'', T_bool), (''dataType'', T_u8)]
      | UpdateDataStoreAuthorityArgs \<Rightarrow> Some [(''debug'', T_bool)]
      | FinalizeDataStoreArgs \<Rightarrow> Some [(''debug'', T_bool)]
      | CloseDataStoreArgs \<Rightarrow> Some [(''debug'', T_bool)]
      | OtherClass n \<Rightarrow> None)"

subsection \<open>The call of the encoder\<close>

text \<open>
  \<^verbatim>\<open>serialize(schema, instruction)\<close> of \<^verbatim>\<open>borsh\<close>, as \<^verbatim>\<open>serializeInstructionData\<close>
  calls it: the first argument is one entry of the table, an object
  \<^verbatim>\<open>{kind: 'struct', fields: [...]}\<close>.  Releases 0.x of the package take the whole
  \<^verbatim>\<open>Map\<close> in that place and begin with \<^verbatim>\<open>schema.get(obj.constructor)\<close>, which is no
  function on an entry (a \<^verbatim>\<open>TypeError\<close>); releases from 1.0 on validate the schema
  first and accept only the shapes \<^verbatim>\<open>{struct: ...}\<close>, \<^verbatim>\<open>{array: ...}\<close> and the like.
  With either, the call throws before it reads a field of the instruction.
\<close>

definition serialize :: "Schema \<Rightarrow> obj \<Rightarrow> error + byte list" where
  "serialize entry instruction = Inl (BorshError ''schema entry rejected'')"

definition serializeInstructionData :: "obj \<Rightarrow> error + byte list" where
  "serializeInstructionData instruction =
     (case schemas (constructor instruction) of
        None \<Rightarrow> Inl (Error ''Schema not found for instruction'')
      | Some schema \<Rightarrow> serialize schema instruction)"

definition calculateDataHash :: "env \<Rightarrow> byte list \<Rightarrow> byte list" where
  "calculateDataHash E buf = sha256 E buf"

definition createInitializeDataStoreInstruction ::
  "bool \<Rightarrow> nat \<Rightarrow> nat option \<Rightarrow> bool \<Rightarrow> nat \<Rightarrow> PublicKey \<Rightarrow> bool \<Rightarrow> error + byte list" where
  "createInitializeDataStoreInstruction debug dataType bumpSeed isCreated space authority
       isDynamic =
     serializeInstructionData
       (new_InitializeDataStoreArgs debug dataType bumpSeed isCreated space authority
          isDynamic)"

definition createUpdateDataStoreInstruction ::
  "env \<Rightarrow> bool \<Rightarrow> byte list \<Rightarrow> nat \<Rightarrow> bool \<Rightarrow> nat \<Rightarrow> error + byte list" where
  "createUpdateDataStoreInstruction E debug buf offset reallocDown dataType =
     (let dataHash = calculateDataHash E buf
      in serializeInstructionData
           (new_UpdateDataStoreArgs debug dataHash buf offset reallocDown dataType))"

definition createUpdateAuthorityInstruction :: "bool \<Rightarrow> error + byte list" where
  "createUpdateAuthorityInstruction debug =
     serializeInstructionData (new_UpdateDataStoreAuthorityArgs debug)"

definition createFinalizeInstruction :: "bool \<Rightarrow> error + byte list" where
  "createFinalizeInstruction debug =
     serializeInstructionData (new_FinalizeDataStoreArgs debug)"

definition createCloseInstruction :: "bool \<Rightarrow> error + byte list" where
  "createCloseInstruction debug =
     serializeInstructionData (new_CloseDataStoreArgs debug)"

section \<open>index.ts\<close>

subsection \<open>Constants and types\<close>

definition DATA_STORE_PROGRAM_ID :: PublicKey where
  "DATA_STORE_PROGRAM_ID = PublicKey_of_base58 ''CxcgUrnSLjL7S44vLFxq6Jc7zscw5MUrZsobo711gmaq''"

definition PDA_SEED :: string where
  "PDA_SEED = ''data_store''"

text \<open>\<^verbatim>\<open>SystemProgram.programId\<close> of \<^verbatim>\<open>@solana/web3.js\<close>: the key written as 32 ones.\<close>

definition SystemProgram_programId :: PublicKey where
  "SystemProgram_programId = PublicKey_of_base58 ''11111111111111111111111111111111''"

datatype DataStoreTypeOption = File | Directory

fun DataStoreTypeOption_number :: "DataStoreTypeOption \<Rightarrow> nat" where
  "DataStoreTypeOption_number File = 0"
| "DataStoreTypeOption_number Directory = 1"

datatype SerializationStatusOption = Uninitialized | Initialized | Finalized

text \<open>
  \<^verbatim>\<open>IDataStoreAccountMetadata\<close>, fields in the order of the interface: dataType,
  authority (base58), dataStatus, bumpSeed, dataHash, isDynamic, space.
\<close>

datatype IDataStoreAccountMetadata =
  IDataStoreAccountMetadata DataStoreTypeOption string SerializationStatusOption nat
    "byte list" bool nat

text \<open>The object that the decoder would hand back; its authority is still raw bytes.\<close>

datatype DecodedMetadata =
  DecodedMetadata DataStoreTypeOption "byte list" SerializationStatusOption nat
    "byte list" bool nat

record AccountMeta =
  pubkey :: PublicKey
  isSigner :: bool
  isWritable :: bool

record TransactionInstruction =
  keys :: "AccountMeta list"
  programId :: PublicKey
  data :: "byte list"

text \<open>\<^verbatim>\<open>AccountInfo<Buffer>\<close>; the SDK reads only its data buffer.\<close>

record AccountInfo =
  executable :: bool
  owner :: PublicKey
  lamports :: nat
  accountData :: "byte list"

subsection \<open>Helpers of the language and of web3.js\<close>

text \<open>\<^verbatim>\<open>debug || false\<close> for an optional boolean parameter; \<open>None\<close> is \<^verbatim>\<open>undefined\<close>.\<close>

definition or_false :: "bool option \<Rightarrow> bool" where
  "or_false debug = (case debug of None \<Rightarrow> False | Some b \<Rightarrow> b)"

text \<open>
  \<^verbatim>\<open>new BN(n)\<close> of \<^verbatim>\<open>bn.js\<close> for a JavaScript number: the constructor asserts that
  the number is below \<open>2^53\<close> and throws \<^verbatim>\<open>Error('Assertion failed')\<close> otherwise.
\<close>

definition new_BN :: "nat \<Rightarrow> error + nat" where
  "new_BN n = (if n < 2 ^ 53 then Inr n else Inl (Error ''Assertion failed''))"

text \<open>
  \<^verbatim>\<open>index.ts\<close> imports the five create functions and nothing else from the
  repository; the identifiers \<^verbatim>\<open>borshSerialize\<close> and \<^verbatim>\<open>borshDeserialize\<close> that it uses
  are declared and imported nowhere.  Evaluating an identifier without a binding
  throws a \<^verbatim>\<open>ReferenceError\<close>.
\<close>

definition unbound_identifier :: "string \<Rightarrow> error + 'a" where
  "unbound_identifier name = Inl (ReferenceError name)"

text \<open>\<^verbatim>\<open>new PublicKey(bytes)\<close> and \<^verbatim>\<open>toBase58()\<close>.\<close>

definition PublicKey_of_bytes :: "byte list \<Rightarrow> PublicKey" where
  "PublicKey_of_bytes bs = of_nat (le_value (rev bs))"

fun b58_digits :: "nat \<Rightarrow> nat \<Rightarrow> string" where
  "b58_digits 0 n = []"
| "b58_digits (Suc k) n = b58_digits k (n div 58) @ [b58_alphabet ! (n mod 58)]"

definition toBase58 :: "PublicKey \<Rightarrow> string" where
  "toBase58 k =
     replicate (length (takeWhile (\<lambda>b. b = 0) (toBytes k))) (CHR ''1'')
     @ dropWhile (\<lambda>c. c = CHR ''1'') (b58_digits 44 (unat k))"

subsection \<open>DataStoreProgram\<close>

definition getPDA :: "env \<Rightarrow> PublicKey \<Rightarrow> PublicKey \<times> nat" where
  "getPDA E dataKey =
     findProgramAddressSync E [Buffer_from PDA_SEED, toBuffer dataKey] DATA_STORE_PROGRAM_ID"

text \<open>
  \<^verbatim>\<open>initializeDataStore\<close> keeps only the address of \<^verbatim>\<open>getPDA\<close>'s pair and builds the
  argument literal, \<^verbatim>\<open>new BN(space)\<close> included, without a \<^verbatim>\<open>bumpSeed\<close> property.
\<close>

definition initializeDataStore ::
  "env \<Rightarrow> PublicKey \<Rightarrow> PublicKey \<Rightarrow> PublicKey \<Rightarrow> DataStoreTypeOption \<Rightarrow> bool \<Rightarrow> nat \<Rightarrow> bool
     \<Rightarrow> bool option \<Rightarrow> error + TransactionInstruction" where
  "initializeDataStore E feePayer dataAccount authority dataType isCreated space isDynamic
       debug =
     (let pda = fst (getPDA E dataAccount)
      in case new_BN space of
           Inl e \<Rightarrow> Inl e
         | Inr space_bn \<Rightarrow>
             (case createInitializeDataStoreInstruction (or_false debug)
                     (DataStoreTypeOption_number dataType) None isCreated space_bn authority
                     isDynamic of
                Inl e \<Rightarrow> Inl e
              | Inr instructionData \<Rightarrow>
                  Inr \<lparr>keys =
                         [\<lparr>pubkey = feePayer, isSigner = True, isWritable = True\<rparr>,
                          \<lparr>pubkey = dataAccount, isSigner = \<not> isCreated, isWritable = True\<rparr>,
                          \<lparr>pubkey = pda, isSigner = False, isWritable = True\<rparr>,
                          \<lparr>pubkey = SystemProgram_programId, isSigner = False,
                             isWritable = False\<rparr>],
                       programId = DATA_STORE_PROGRAM_ID,
                       data = instructionData\<rparr>))"

definition updateDataStore ::
  "env \<Rightarrow> PublicKey \<Rightarrow> PublicKey \<Rightarrow> byte list \<Rightarrow> nat \<Rightarrow> bool \<Rightarrow> DataStoreTypeOption
     \<Rightarrow> bool option \<Rightarrow> error + TransactionInstruction" where
  "updateDataStore E authority dataAccount buf offset reallocDown dataType debug =
     (let pda = fst (getPDA E dataAccount)
      in case new_BN offset of
           Inl e \<Rightarrow> Inl e
         | Inr offset_bn \<Rightarrow>
             (case createUpdateDataStoreInstruction E (or_false debug) buf offset_bn
                     reallocDown (DataStoreTypeOption_number dataType) of
                Inl e \<Rightarrow> Inl e
              | Inr instructionData \<Rightarrow>
                  Inr \<lparr>keys =
                         [\<lparr>pubkey = authority, isSigner = True, isWritable = True\<rparr>,
                          \<lparr>pubkey = dataAccount, isSigner = False, isWritable = True\<rparr>,
                          \<lparr>pubkey = pda, isSigner = False, isWritable = True\<rparr>,
                          \<lparr>pubkey = SystemProgram_programId, isSigner = False,
                             isWritable = False\<rparr>],
                       programId = DATA_STORE_PROGRAM_ID,
                       data = instructionData\<rparr>))"

definition updateDataStoreAuthority ::
  "env \<Rightarrow> PublicKey \<Rightarrow> PublicKey \<Rightarrow> PublicKey \<Rightarrow> bool option
     \<Rightarrow> error + TransactionInstruction" where
  "updateDataStoreAuthority E oldAuthority dataAccount newAuthority debug =
     (let pda = fst (getPDA E dataAccount)
      in case createUpdateAuthorityInstruction (or_false debug) of
           Inl e \<Rightarrow> Inl e
         | Inr instructionData \<Rightarrow>
             Inr \<lparr>keys =
                    [\<lparr>pubkey = oldAuthority, isSigner = True, isWritable = False\<rparr>,
                     \<lparr>pubkey = dataAccount, isSigner = False, isWritable = False\<rparr>,
                     \<lparr>pubkey = pda, isSigner = False, isWritable = True\<rparr>,
                     \<lparr>pubkey = newAuthority, isSigner = True, isWritable = False\<rparr>],
                  programId = DATA_STORE_PROGRAM_ID,
                  data = instructionData\<rparr>)"

definition finalizeDataStore ::
  "env \<Rightarrow> PublicKey \<Rightarrow> PublicKey \<Rightarrow> bool option \<Rightarrow> error + TransactionInstruction" where
  "finalizeDataStore E authority dataAccount debug =
     (let pda = fst (getPDA E dataAccount)
      in case createFinalizeInstruction (or_false debug) of
           Inl e \<Rightarrow> Inl e
         | Inr instructionData \<Rightarrow>
             Inr \<lparr>keys =
                    [\<lparr>pubkey = authority, isSigner = True, isWritable = False\<rparr>,
                     \<lparr>pubkey = dataAccount, isSigner = False, isWritable = False\<rparr>,
                     \<lparr>pubkey = pda, isSigner = False, isWritable = True\<rparr>],
                  programId = DATA_STORE_PROGRAM_ID,
                  data = instructionData\<rparr>)"

text \<open>
  \<^verbatim>\<open>closeDataStore\<close> does not call \<^verbatim>\<open>createCloseInstruction\<close>; it applies the
  unbound \<^verbatim>\<open>borshSerialize\<close> to the literal \<^verbatim>\<open>{ debug: debug || false }\<close>.
\<close>

definition closeDataStore ::
  "env \<Rightarrow> PublicKey \<Rightarrow> PublicKey \<Rightarrow> bool option \<Rightarrow> error + TransactionInstruction" where
  "closeDataStore E authority dataAccount debug =
     (let pda = fst (getPDA E dataAccount)
      in case unbound_identifier ''borshSerialize'' of
           Inl e \<Rightarrow> Inl e
         | Inr borshSerialize \<Rightarrow>
             Inr \<lparr>keys =
                    [\<lparr>pubkey = authority, isSigner = True, isWritable = True\<rparr>,
                     \<lparr>pubkey = dataAccount, isSigner = False, isWritable = True\<rparr>,
                     \<lparr>pubkey = pda, isSigner = False, isWritable = True\<rparr>],
                  programId = DATA_STORE_PROGRAM_ID,
                  data = borshSerialize (or_false debug)\<rparr>)"

text \<open>
  \<^verbatim>\<open>parseMetadataFromAccountInfo\<close>: \<open>None\<close> is \<^verbatim>\<open>null\<close>.  After the guard it applies the
  unbound \<^verbatim>\<open>borshDeserialize\<close> to the data buffer.
\<close>

definition parseMetadataFromAccountInfo ::
  "AccountInfo option \<Rightarrow> error + IDataStoreAccountMetadata" where
  "parseMetadataFromAccountInfo metadataInfo =
     (case metadataInfo of
        None \<Rightarrow> Inl (Error ''Invalid metadata account data'')
      | Some info \<Rightarrow>
          if length (accountData info) = 0
          then Inl (Error ''Invalid metadata account data'')
          else (case unbound_identifier ''borshDeserialize'' of
                  Inl e \<Rightarrow> Inl e
                | Inr borshDeserialize \<Rightarrow>
                    (case borshDeserialize (accountData info) of
                       DecodedMetadata dataType authority dataStatus bumpSeed dataHash
                           isDynamic space \<Rightarrow>
                         Inr (IDataStoreAccountMetadata dataType
                                (toBase58 (PublicKey_of_bytes authority)) dataStatus bumpSeed
                                dataHash isDynamic space))))"

section \<open>An environment for concrete instances\<close>

text \<open>
  A stand-in for the external functions, used where a statement is evaluated on
  concrete inputs: the hash returns 32 copies of the input's length, and the derivation
  returns the program id plus the number of seeds with bump 254.
\<close>

definition example_env :: env where
  "example_env =
     \<lparr>sha256 = (\<lambda>bs. replicate 32 (of_nat (length bs))),
      findProgramAddressSync = (\<lambda>seeds programId. (programId + of_nat (length seeds), 254))\<rparr>"

section \<open>Byte sequences\<close>

lemma le_bytes_numeral [simp]:
  "le_bytes (numeral k) n = of_nat (n mod 256) # le_bytes (pred_numeral k) (n div 256)"
  by (simp only: numeral_eq_Suc[of k] le_bytes.simps)

lemma length_le_bytes [simp]: "length (le_bytes k n) = k"
  by (induction k arbitrary: n) simp_all

text \<open>\<open>le_bytes\<close> is the little-endian representation: reading it back gives the number.\<close>

lemma le_value_le_bytes: "n < 256 ^ k \<Longrightarrow> le_value (le_bytes k n) = n"
proof (induction k arbitrary: n)
  case 0
  then show ?case by simp
next
  case (Suc k)
  from Suc.prems have "n div 256 < 256 ^ k"
    by (simp add: less_mult_imp_div_less mult.commute)
  then have "le_value (le_bytes k (n div 256)) = n div 256"
    by (rule Suc.IH)
  moreover have "unat (of_nat (n mod 256) :: byte) = n mod 256"
    by (simp add: unat_of_nat)
  ultimately show ?case by simp
qed

lemma length_toBytes [simp]: "length (toBytes k) = 32"
  by (simp add: toBytes_def del: le_bytes_numeral)

section \<open>Constants\<close>

lemma b58_value_program_id:
  "b58_value ''CxcgUrnSLjL7S44vLFxq6Jc7zscw5MUrZsobo711gmaq'' =
     80370065385262808625915777405418167594046274294983597820022711054677126231154"
  by (simp add: b58_value_def b58_alphabet_def)

lemma program_id_has_32_bytes:
  "256 ^ 31 \<le> b58_value ''CxcgUrnSLjL7S44vLFxq6Jc7zscw5MUrZsobo711gmaq''
   \<and> b58_value ''CxcgUrnSLjL7S44vLFxq6Jc7zscw5MUrZsobo711gmaq'' < 256 ^ 32"
  by (simp add: b58_value_program_id)

lemma toBytes_DATA_STORE_PROGRAM_ID:
  "toBytes DATA_STORE_PROGRAM_ID =
     [177, 175, 216, 80, 148, 232, 88, 103, 161, 238, 221, 219, 63, 102, 97, 114,
      169, 39, 149, 171, 162, 130, 53, 213, 7, 110, 191, 84, 110, 21, 52, 114]"
  by (simp add: toBytes_def DATA_STORE_PROGRAM_ID_def PublicKey_of_base58_def
      b58_value_program_id)

lemma SystemProgram_programId_zero: "SystemProgram_programId = 0"
  by (simp add: SystemProgram_programId_def PublicKey_of_base58_def b58_value_def
      b58_alphabet_def)

section \<open>The encoder call\<close>

lemma schemas_registered:
  "(schemas c = None) =
     (c \<notin> {InitializeDataStoreArgs, UpdateDataStoreArgs, UpdateDataStoreAuthorityArgs,
            FinalizeDataStoreArgs, CloseDataStoreArgs})"
  by (cases c) (simp_all add: schemas_def)

text \<open>
  Claim C5.  \<^verbatim>\<open>serializeInstructionData\<close> fails with \<^verbatim>\<open>Schema not found for instruction\<close>
  exactly for an object whose constructor is none of the five registered classes.  For
  a registered class it does not return bytes either: the call of \<^verbatim>\<open>serialize\<close> with the
  table entry fails inside the package.
\<close>

theorem serializeInstructionData_result:
  "serializeInstructionData instruction =
     (if constructor instruction \<in>
           {InitializeDataStoreArgs, UpdateDataStoreArgs, UpdateDataStoreAuthorityArgs,
            FinalizeDataStoreArgs, CloseDataStoreArgs}
      then Inl (BorshError ''schema entry rejected'')
      else Inl (Error ''Schema not found for instruction''))"
  using schemas_registered [of "constructor instruction"]
  by (cases "schemas (constructor instruction)")
     (simp_all add: serializeInstructionData_def serialize_def)

text \<open>
  Claim C7.  No call of \<^verbatim>\<open>serializeInstructionData\<close> returns a byte sequence, whatever
  the object: there are no two encodings to compare.
\<close>

theorem serializeInstructionData_no_bytes:
  "serializeInstructionData instruction \<noteq> Inr bytes"
  by (simp add: serializeInstructionData_def serialize_def split: option.splits)

section \<open>Payload of the write instruction\<close>

text \<open>
  Claim C2.  \<^verbatim>\<open>createUpdateDataStoreInstruction\<close> returns no payload: for every debug
  flag, buffer, offset, reallocDown flag and type tag it fails in the call of
  \<^verbatim>\<open>serialize\<close>, after the hash of the buffer has been computed.
\<close>

theorem createUpdateDataStoreInstruction_fails:
  "createUpdateDataStoreInstruction E debug buf offset reallocDown dataType =
     Inl (BorshError ''schema entry rejected'')"
  by (simp add: createUpdateDataStoreInstruction_def serializeInstructionData_def
      new_UpdateDataStoreArgs_def schemas_def serialize_def)

section \<open>The creation instruction\<close>

text \<open>
  Claim C1.  \<^verbatim>\<open>initializeDataStore\<close> returns no payload: for a size from \<open>2^53\<close> on it
  fails in \<^verbatim>\<open>new BN(space)\<close>, for every smaller size in the call of \<^verbatim>\<open>serialize\<close>.  The
  object it hands to \<^verbatim>\<open>serializeInstructionData\<close> has no bump seed: its \<^verbatim>\<open>bumpSeed\<close>
  property is \<^verbatim>\<open>undefined\<close>, whatever bump \<^verbatim>\<open>getPDA\<close> returned.
\<close>

theorem initializeDataStore_fails:
  "initializeDataStore E feePayer dataAccount authority dataType isCreated space isDynamic
       debug =
     (if space < 2 ^ 53 then Inl (BorshError ''schema entry rejected'')
      else Inl (Error ''Assertion failed''))
   \<and> get_prop
         (new_InitializeDataStoreArgs (or_false debug) (DataStoreTypeOption_number dataType)
            None isCreated space authority isDynamic) ''bumpSeed'' = Undefined"
  by (simp add: initializeDataStore_def new_BN_def createInitializeDataStoreInstruction_def
      serializeInstructionData_def new_InitializeDataStoreArgs_def schemas_def serialize_def
      get_prop_def number_or_undefined_def)

text \<open>
  Claim C9.  \<^verbatim>\<open>initializeDataStore\<close> returns no instruction, whatever its arguments: the
  key list of the source is never reached.
\<close>

theorem initializeDataStore_no_instruction:
  "initializeDataStore E feePayer dataAccount authority dataType isCreated space isDynamic
       debug \<noteq> Inr ins"
  by (simp add: initializeDataStore_def new_BN_def createInitializeDataStoreInstruction_def
      serializeInstructionData_def new_InitializeDataStoreArgs_def schemas_def serialize_def)

section \<open>Payloads that hold the debug flag only\<close>

text \<open>
  Claim C3.  None of the three builders returns an instruction.
  \<^verbatim>\<open>updateDataStoreAuthority\<close> and \<^verbatim>\<open>finalizeDataStore\<close> fail in the call of
  \<^verbatim>\<open>serialize\<close>; \<^verbatim>\<open>closeDataStore\<close> fails with a \<^verbatim>\<open>ReferenceError\<close> for
  \<^verbatim>\<open>borshSerialize\<close>.
\<close>

theorem debug_only_builders_fail:
  "updateDataStoreAuthority E oldAuthority dataAccount newAuthority debug
     = Inl (BorshError ''schema entry rejected'')
   \<and> finalizeDataStore E authority dataAccount debug
     = Inl (BorshError ''schema entry rejected'')
   \<and> closeDataStore E authority dataAccount debug = Inl (ReferenceError ''borshSerialize'')"
  by (simp add: updateDataStoreAuthority_def finalizeDataStore_def closeDataStore_def
      createUpdateAuthorityInstruction_def createFinalizeInstruction_def
      serializeInstructionData_def new_UpdateDataStoreAuthorityArgs_def
      new_FinalizeDataStoreArgs_def schemas_def serialize_def unbound_identifier_def)

section \<open>Decoding the metadata account\<close>

text \<open>
  Claim C4.  \<^verbatim>\<open>parseMetadataFromAccountInfo\<close> fails with \<^verbatim>\<open>Invalid metadata account data\<close>
  when its argument is null or has an empty data buffer, and with a \<^verbatim>\<open>ReferenceError\<close>
  for \<^verbatim>\<open>borshDeserialize\<close> on every other argument.
\<close>

theorem parseMetadataFromAccountInfo_result:
  "parseMetadataFromAccountInfo metadataInfo =
     (if metadataInfo = None \<or> accountData (the metadataInfo) = []
      then Inl (Error ''Invalid metadata account data'')
      else Inl (ReferenceError ''borshDeserialize''))"
  by (cases metadataInfo) (simp_all add: parseMetadataFromAccountInfo_def unbound_identifier_def)

text \<open>
  Claim C6.  No byte buffer is decoded to a metadata record: whatever its argument,
  \<^verbatim>\<open>parseMetadataFromAccountInfo\<close> does not return a record, so no encoding of a record
  is mapped back to it.
\<close>

theorem parseMetadataFromAccountInfo_never_decodes:
  "parseMetadataFromAccountInfo metadataInfo \<noteq> Inr metadata"
  by (cases metadataInfo) (simp_all add: parseMetadataFromAccountInfo_def unbound_identifier_def)

section \<open>The derived address\<close>

text \<open>
  Claim C8.  \<^verbatim>\<open>getPDA\<close> is the derivation of web3.js applied to the two seeds
  \<^verbatim>\<open>data_store\<close> (as bytes) and the 32 bytes of the data account's key, under the fixed
  program id; it reads nothing else of the environment.
\<close>

theorem getPDA_derivation:
  "getPDA E dataKey =
     findProgramAddressSync E
       [[100, 97, 116, 97, 95, 115, 116, 111, 114, 101], toBytes dataKey] DATA_STORE_PROGRAM_ID
   \<and> (\<forall>E'. findProgramAddressSync E' = findProgramAddressSync E
          \<longrightarrow> getPDA E' dataKey = getPDA E dataKey)"
  by (simp add: getPDA_def Buffer_from_def PDA_SEED_def toBuffer_def)

theorem getPDA_derivation_witness:
  "getPDA example_env 2 = (DATA_STORE_PROGRAM_ID + 2, 254)
   \<and> getPDA (example_env\<lparr>sha256 := (\<lambda>bs. [])\<rparr>) 2 = getPDA example_env 2"
  using getPDA_derivation [of example_env 2]
  by (simp add: example_env_def)

section \<open>The optional debug parameter\<close>

text \<open>
  Claim C10.  With the debug parameter left out (or \<^verbatim>\<open>undefined\<close>) and with
  \<^verbatim>\<open>false\<close> alike, each of the five builders fails and produces no instruction data:
  \<^verbatim>\<open>initializeDataStore\<close> and \<^verbatim>\<open>updateDataStore\<close> in \<^verbatim>\<open>new BN\<close> or in the call of
  \<^verbatim>\<open>serialize\<close>, \<^verbatim>\<open>updateDataStoreAuthority\<close> and \<^verbatim>\<open>finalizeDataStore\<close> in the call of
  \<^verbatim>\<open>serialize\<close>, \<^verbatim>\<open>closeDataStore\<close> at the unbound \<^verbatim>\<open>borshSerialize\<close>.
\<close>

theorem builders_without_debug_fail:
  "initializeDataStore E feePayer dataAccount authority dataType isCreated space isDynamic None
     = (if space < 2 ^ 53 then Inl (BorshError ''schema entry rejected'')
        else Inl (Error ''Assertion failed''))
   \<and> initializeDataStore E feePayer dataAccount authority dataType isCreated space isDynamic
         (Some False)
     = (if space < 2 ^ 53 then Inl (BorshError ''schema entry rejected'')
        else Inl (Error ''Assertion failed''))
   \<and> updateDataStore E authority dataAccount buf offset reallocDown dataType None
     = (if offset < 2 ^ 53 then Inl (BorshError ''schema entry rejected'')
        else Inl (Error ''Assertion failed''))
   \<and> updateDataStore E authority dataAccount buf offset reallocDown dataType (Some False)
     = (if offset < 2 ^ 53 then Inl (BorshError ''schema entry rejected'')
        else Inl (Error ''Assertion failed''))
   \<and> updateDataStoreAuthority E oldAuthority dataAccount newAuthority None
     = Inl (BorshError ''schema entry rejected'')
   \<and> updateDataStoreAuthority E oldAuthority dataAccount newAuthority (Some False)
     = Inl (BorshError ''schema entry rejected'')
   \<and> finalizeDataStore E authority dataAccount None
     = Inl (BorshError ''schema entry rejected'')
   \<and> finalizeDataStore E authority dataAccount (Some False)
     = Inl (BorshError ''schema entry rejected'')
   \<and> closeDataStore E authority dataAccount None = Inl (ReferenceError ''borshSerialize'')
   \<and> closeDataStore E authority dataAccount (Some False)
     = Inl (ReferenceError ''borshSerialize'')"
  by (simp add: initializeDataStore_def updateDataStore_def updateDataStoreAuthority_def
      finalizeDataStore_def closeDataStore_def new_BN_def
      createInitializeDataStoreInstruction_def createUpdateDataStoreInstruction_def
      createUpdateAuthorityInstruction_def createFinalizeInstruction_def
      serializeInstructionData_def new_InitializeDataStoreArgs_def new_UpdateDataStoreArgs_def
      new_UpdateDataStoreAuthorityArgs_def new_FinalizeDataStoreArgs_def schemas_def
      serialize_def unbound_identifier_def)

end
